theory Spec2Isabelle
  imports Main
begin

section \<open>Data model of the inference pipeline (src/src/infer.ts)\<close>

text \<open>
  The analyzer's verdict on a column or expression: \<open>Any\<close> carries the outer
  nullability, \<open>Array\<close> the outer and the element nullability.
\<close>

datatype fieldNullability =
    Any bool
  | Array bool bool

fun nullable :: "fieldNullability \<Rightarrow> bool" where
  "nullable (Any n) = n"
| "nullable (Array n e) = n"

text \<open>The object spread \<open>{ ...nullability, nullable: v }\<close>: the kind and the
  element nullability are kept.\<close>

fun withNullable :: "fieldNullability \<Rightarrow> bool \<Rightarrow> fieldNullability" where
  "withNullable (Any n) v = Any v"
| "withNullable (Array n e) v = Array v e"

record sourceColumn =
  tableAlias :: string
  columnName :: string
  nullability :: fieldNullability
  hidden :: bool

record virtualField =
  vf_name :: string
  vf_nullability :: fieldNullability

record virtualTable =
  vt_name :: string
  vt_columns :: "virtualField list"

text \<open>
  The modules \<open>./types\<close> and \<open>./schema\<close> are imported by infer.ts; of their
  declarations only the fields that infer.ts reads or writes are modelled.
  A value type is a scalar of some oid, or an array type carrying the element
  nullability (\<open>ValueType.array(oid, elemNullable)\<close>).
\<close>

datatype valueType =
    AnyType int
  | ArrayType int bool

fun oid :: "valueType \<Rightarrow> int" where
  "oid (AnyType i) = i"
| "oid (ArrayType i e) = i"

record namedValue =
  nv_name :: string
  nv_type :: valueType
  nv_nullable :: bool

record param =
  p_type :: valueType
  p_nullable :: bool

datatype statementRowCount = Zero | One | ZeroOrOne | Many

record statementDescription =
  sql :: string
  columns :: "namedValue list"
  params :: "param list"
  rowCount :: statementRowCount

record column =
  col_name :: string
  col_nullable :: bool
  col_hidden :: bool

record dbTable =
  tbl_name :: string
  tbl_columns :: "column list"

text \<open>Every \<open>Either.left\<close> of infer.ts, and the failures of the parser and of the
  schema client, as values.\<close>

datatype error =
    ParseError string
  | SchemaError string
  | NonEqualNumberOfColumns nat nat
  | ColumnNamesDiffer string string
  | NoColumns
  | NoVisibleColumnsForTable string
  | UnknownColumn string
  | UnknownTableColumn string string
  | SubqueryMustReturnOneColumn

subsection \<open>The AST, as infer.ts walks it\<close>

record tableRef =
  schema :: "string option"
  table :: string

datatype joinType = INNER | LEFT | RIGHT | FULL

text \<open>
  The expression kinds are the handlers of the exhaustive walk in
  \<open>inferExpressionNullability\<close>; the statement kinds and their fields are the
  ones destructured in \<open>getOutputColumns\<close>, \<open>getParamNullability\<close> and
  \<open>inferRowCount\<close>. A parameter's index is 1-based, as in SQL. A \<open>None\<close>
  entry of a VALUES tuple or of an assignment is the keyword DEFAULT.
\<close>

datatype 'e limit = Limit "'e option"

datatype 'e updateAssignment = UpdateAssignment string "'e option"

datatype 'e valuesClause =
    DefaultValues
  | ExprValues "'e option list list"

datatype 'a withQuery = WithQuery string 'a

datatype ('i, 't, 'e) selectBody = SelectBody "'i list" "'t option" "'e option"

datatype expression =
    ColumnRef string
  | TableColumnRef string string
  | Constant string
  | Parameter int
  | UnaryOp string expression
  | BinaryOp expression string expression
  | ExistsOp ast
  | FunctionCall string "expression list"
  | InOp expression ast
  | ArraySubQuery ast
  | TypeCast expression string
and selectListItem =
    AllFields
  | AllTableFields string
  | SelectListExpression expression "string option"
and tableExpression =
    Table tableRef "string option"
  | SubQuery ast string
  | CrossJoin tableExpression tableExpression
  | QualifiedJoin tableExpression joinType tableExpression
and ast =
    Select "ast withQuery list" "(selectListItem, tableExpression, expression) selectBody"
      "expression limit option"
  | Insert tableRef "string option" "string list" "expression valuesClause"
      "selectListItem list"
  | Update "ast withQuery list" tableRef "string option" "expression updateAssignment list"
      "tableExpression option" "expression option" "selectListItem list"
  | Delete tableRef "string option" "expression option" "selectListItem list"

datatype nullSafety = Safe | Unsafe | AlwaysNull | NeverNull

type_synonym schemaClient = "string option \<Rightarrow> string \<Rightarrow> error + dbTable"

text \<open>
  What infer.ts imports from \<open>./const-utils\<close>, \<open>./ast\<close> and \<open>./parser\<close>:
  the two NULL-safety tables, the equality test on expressions and the parser.
  They are parameters of the model.
\<close>

record lib =
  operatorNullSafety :: "string \<Rightarrow> nullSafety"
  functionNullSafety :: "string \<Rightarrow> nullSafety"
  expressionEquals :: "expression \<Rightarrow> expression \<Rightarrow> bool"
  parse :: "string \<Rightarrow> error + ast"

subsection \<open>Either, as fp-ts sequences it\<close>


fun orElseStr :: "string option \<Rightarrow> string \<Rightarrow> string" where
  "orElseStr None d = d"
| "orElseStr (Some s) d = (if s = [] then d else s)"

fun bindE :: "'e + 'a \<Rightarrow> ('a \<Rightarrow> 'e + 'b) \<Rightarrow> 'e + 'b" where
  "bindE (Inl e) f = Inl e"
| "bindE (Inr a) f = f a"

fun mapE :: "('a \<Rightarrow> 'b) \<Rightarrow> 'e + 'a \<Rightarrow> 'e + 'b" where
  "mapE f (Inl e) = Inl e"
| "mapE f (Inr a) = Inr (f a)"

fun sequenceE :: "('e + 'a) list \<Rightarrow> 'e + 'a list" where
  "sequenceE [] = Inr []"
| "sequenceE (Inl e # xs) = Inl e"
| "sequenceE (Inr a # xs) = mapE (\<lambda>as. a # as) (sequenceE xs)"

definition combineSourceColumns ::
  "error + sourceColumn list \<Rightarrow> error + sourceColumn list \<Rightarrow> error + sourceColumn list" where
  "combineSourceColumns l r = mapE concat (sequenceE [l, r])"

definition combineVirtualTables ::
  "virtualTable list \<Rightarrow> error + virtualTable list \<Rightarrow> error + virtualTable list" where
  "combineVirtualTables outsideCTEs ctes = mapE (\<lambda>virtualTables. outsideCTEs @ virtualTables) ctes"

definition setSourceColumnsAsNullable :: "sourceColumn list \<Rightarrow> sourceColumn list" where
  "setSourceColumnsAsNullable sourceColumns =
     map (\<lambda>col. col\<lparr>nullability := withNullable (nullability col) True\<rparr>) sourceColumns"

definition getSourceColumnsForTable ::
  "schemaClient \<Rightarrow> virtualTable list \<Rightarrow> tableRef \<Rightarrow> string option \<Rightarrow> error + sourceColumn list" where
  "getSourceColumnsForTable client ctes tbl as =
     (case (if schema tbl = None then find (\<lambda>virtualTable. vt_name virtualTable = table tbl) ctes
            else None) of
        Some result \<Rightarrow>
          Inr (map (\<lambda>col. \<lparr>tableAlias = orElseStr as (table tbl), columnName = vf_name col,
                            nullability = vf_nullability col, hidden = False\<rparr>)
                 (vt_columns result))
      | None \<Rightarrow>
          mapE (\<lambda>t. map (\<lambda>col. \<lparr>tableAlias = orElseStr as (tbl_name t), columnName = col_name col,
                                  nullability = Any (col_nullable col), hidden = col_hidden col\<rparr>)
                       (tbl_columns t))
            (client (schema tbl) (table tbl)))"

subsection \<open>WHERE-based NULL elimination\<close>

function (sequential) getNonNullExpressionsFromWhere ::
  "lib \<Rightarrow> expression option \<Rightarrow> expression list" where
  "getNonNullExpressionsFromWhere lib None = []"
| "getNonNullExpressionsFromWhere lib (Some (BinaryOp lhs op rhs)) =
     (if op = ''AND''
      then getNonNullExpressionsFromWhere lib (Some lhs) @
           getNonNullExpressionsFromWhere lib (Some rhs)
      else if operatorNullSafety lib op = Safe then [lhs, rhs]
      else [])"
| "getNonNullExpressionsFromWhere lib (Some (UnaryOp op operand)) =
     (if op = ''IS NOT NULL'' \<or> op = ''NOTNULL'' then [operand] else [])"
| "getNonNullExpressionsFromWhere lib (Some (FunctionCall funcName argList)) =
     (if functionNullSafety lib funcName = Safe then argList else [])"
| "getNonNullExpressionsFromWhere lib (Some _) = []"
  by pat_completeness auto

termination
  by (relation "measure (\<lambda>(lib, wh). size_option size wh)") auto

subsection \<open>Source columns and the column nullability pass\<close>


definition findNonHiddenSourceColumns :: "sourceColumn list \<Rightarrow> error + sourceColumn list" where
  "findNonHiddenSourceColumns sourceColumns =
     (let result = filter (\<lambda>col. \<not> hidden col) sourceColumns
      in if length result > 0 then Inr result else Inl NoColumns)"

definition findNonHiddenSourceTableColumns ::
  "string \<Rightarrow> sourceColumn list \<Rightarrow> error + sourceColumn list" where
  "findNonHiddenSourceTableColumns tableName sourceColumns =
     bindE (mapE (\<lambda>sourceColumns. filter (\<lambda>col. tableAlias col = tableName) sourceColumns)
              (findNonHiddenSourceColumns sourceColumns))
       (\<lambda>result. if length result > 0 then Inr result
                  else Inl (NoVisibleColumnsForTable tableName))"

definition findSourceTableColumn ::
  "string \<Rightarrow> string \<Rightarrow> sourceColumn list \<Rightarrow> error + sourceColumn" where
  "findSourceTableColumn tableName colName sourceColumns =
     (case find (\<lambda>source. tableAlias source = tableName \<and> columnName source = colName)
             sourceColumns of
        None \<Rightarrow> Inl (UnknownTableColumn tableName colName)
      | Some c \<Rightarrow> Inr c)"

definition findSourceColumn :: "string \<Rightarrow> sourceColumn list \<Rightarrow> error + sourceColumn" where
  "findSourceColumn colName sourceColumns =
     (case find (\<lambda>col. columnName col = colName) sourceColumns of
        None \<Rightarrow> Inl (UnknownColumn colName)
      | Some c \<Rightarrow> Inr c)"

record nonNullableColumn =
  nn_tableName :: "string option"
  nn_columnName :: string

fun truthy :: "string option \<Rightarrow> bool" where
  "truthy None = False"
| "truthy (Some s) = (s \<noteq> [])"

definition isColumnNonNullable :: "nonNullableColumn list \<Rightarrow> sourceColumn \<Rightarrow> bool" where
  "isColumnNonNullable nonNullableColumns sourceColumn =
     list_ex (\<lambda>nonNull.
        if truthy (nn_tableName nonNull)
        then Some (tableAlias sourceColumn) = nn_tableName nonNull
        else (True \<and> columnName sourceColumn = nn_columnName nonNull))
       nonNullableColumns"

fun nonNullableColumnOf :: "expression \<Rightarrow> nonNullableColumn option" where
  "nonNullableColumnOf (ColumnRef col) = Some \<lparr>nn_tableName = None, nn_columnName = col\<rparr>"
| "nonNullableColumnOf (TableColumnRef tbl col) =
     Some \<lparr>nn_tableName = Some tbl, nn_columnName = col\<rparr>"
| "nonNullableColumnOf _ = None"

definition applyExpressionNonNullability ::
  "expression list \<Rightarrow> sourceColumn list \<Rightarrow> sourceColumn list" where
  "applyExpressionNonNullability nonNullableExpressions sourceColumns =
     (let nonNullableColumns = List.map_filter nonNullableColumnOf nonNullableExpressions
      in map (\<lambda>sourceColumn. sourceColumn\<lparr>nullability :=
                (if isColumnNonNullable nonNullableColumns sourceColumn then Any False
                 else nullability sourceColumn)\<rparr>) sourceColumns)"

fun inferExpressionName :: "expression \<Rightarrow> string" where
  "inferExpressionName (ColumnRef col) = col"
| "inferExpressionName (TableColumnRef tbl col) = col"
| "inferExpressionName _ = ''?column?''"

definition columnsToFields :: "sourceColumn list \<Rightarrow> virtualField list" where
  "columnsToFields cols =
     map (\<lambda>col. \<lparr>vf_name = columnName col, vf_nullability = nullability col\<rparr>) cols"

function (sequential)
  getOutputColumns ::
    "lib \<Rightarrow> schemaClient \<Rightarrow> virtualTable list \<Rightarrow> ast \<Rightarrow> error + virtualField list"
and getVirtualTablesForWithQueries ::
    "lib \<Rightarrow> schemaClient \<Rightarrow> ast withQuery list \<Rightarrow> error + virtualTable list"
and getSourceColumnsForTableExpr ::
    "lib \<Rightarrow> schemaClient \<Rightarrow> virtualTable list \<Rightarrow> tableExpression option \<Rightarrow> bool
       \<Rightarrow> error + sourceColumn list"
and getSourceColumnsForSubQuery ::
    "lib \<Rightarrow> schemaClient \<Rightarrow> virtualTable list \<Rightarrow> ast \<Rightarrow> string \<Rightarrow> error + sourceColumn list"
and inferSelectListOutput ::
    "lib \<Rightarrow> schemaClient \<Rightarrow> virtualTable list \<Rightarrow> sourceColumn list \<Rightarrow> expression option
       \<Rightarrow> selectListItem list \<Rightarrow> error + virtualField list"
and inferSelectListItemOutput ::
    "lib \<Rightarrow> schemaClient \<Rightarrow> virtualTable list \<Rightarrow> sourceColumn list \<Rightarrow> expression list
       \<Rightarrow> selectListItem \<Rightarrow> error + virtualField list"
and inferExpressionNullability ::
    "lib \<Rightarrow> schemaClient \<Rightarrow> virtualTable list \<Rightarrow> sourceColumn list \<Rightarrow> expression list
       \<Rightarrow> expression \<Rightarrow> error + fieldNullability"
where
  "getOutputColumns lib client outsideCTEs (Select ctes (SelectBody selectList frm wh) lim) =
     bindE (combineVirtualTables outsideCTEs (getVirtualTablesForWithQueries lib client ctes))
       (\<lambda>combinedCTEs.
          bindE (getSourceColumnsForTableExpr lib client combinedCTEs frm False)
            (\<lambda>sourceColumns.
               inferSelectListOutput lib client combinedCTEs sourceColumns wh selectList))"
| "getOutputColumns lib client outsideCTEs (Insert tbl as cols vals returning) =
     bindE (getSourceColumnsForTable client outsideCTEs tbl as)
       (\<lambda>sourceColumns.
          inferSelectListOutput lib client outsideCTEs sourceColumns None returning)"
| "getOutputColumns lib client outsideCTEs (Update ctes tbl as updates frm wh returning) =
     bindE
       (bindE (combineVirtualTables outsideCTEs (getVirtualTablesForWithQueries lib client ctes))
          (\<lambda>combinedCTEs.
             combineSourceColumns
               (getSourceColumnsForTableExpr lib client combinedCTEs frm False)
               (getSourceColumnsForTable client combinedCTEs tbl as)))
       (\<lambda>sourceColumns.
          inferSelectListOutput lib client outsideCTEs sourceColumns wh returning)"
| "getOutputColumns lib client outsideCTEs (Delete tbl as wh returning) =
     bindE (getSourceColumnsForTable client outsideCTEs tbl as)
       (\<lambda>sourceColumns.
          inferSelectListOutput lib client outsideCTEs sourceColumns wh returning)"
| "getVirtualTablesForWithQueries lib client withQueries =
     foldl (\<lambda>acc withQuery.
              case acc of
                Inl e \<Rightarrow> Inl e
              | Inr virtualTables \<Rightarrow>
                  (case withQuery of WithQuery as query \<Rightarrow>
                     (case getOutputColumns lib client virtualTables query of
                        Inl e \<Rightarrow> Inl e
                      | Inr cols \<Rightarrow>
                          Inr (virtualTables @ [\<lparr>vt_name = as, vt_columns = cols\<rparr>]))))
       (Inr []) withQueries"
| "getSourceColumnsForTableExpr lib client ctes None setNullable = Inr []"
| "getSourceColumnsForTableExpr lib client ctes (Some tableExpr) setNullable =
     mapE (\<lambda>sourceColumns.
             if setNullable then setSourceColumnsAsNullable sourceColumns else sourceColumns)
       (case tableExpr of
          Table tbl as \<Rightarrow> getSourceColumnsForTable client ctes tbl as
        | SubQuery query as \<Rightarrow> getSourceColumnsForSubQuery lib client ctes query as
        | CrossJoin left right \<Rightarrow>
            combineSourceColumns
              (getSourceColumnsForTableExpr lib client ctes (Some left) False)
              (getSourceColumnsForTableExpr lib client ctes (Some right) False)
        | QualifiedJoin left joinType right \<Rightarrow>
            combineSourceColumns
              (getSourceColumnsForTableExpr lib client ctes (Some left)
                 (joinType = RIGHT \<or> joinType = FULL))
              (getSourceColumnsForTableExpr lib client ctes (Some right)
                 (joinType = LEFT \<or> joinType = FULL)))"
| "getSourceColumnsForSubQuery lib client outsideCTEs subquery as =
     mapE (\<lambda>cols. map (\<lambda>col. \<lparr>tableAlias = as, columnName = vf_name col,
                                nullability = vf_nullability col, hidden = False\<rparr>) cols)
       (getOutputColumns lib client outsideCTEs subquery)"
| "inferSelectListOutput lib client outsideCTEs sourceColumns wh selectList =
     bindE (Inr (getNonNullExpressionsFromWhere lib wh))
       (\<lambda>nonNullExpressions.
          mapE concat
            (sequenceE
               (map (\<lambda>item. inferSelectListItemOutput lib client outsideCTEs sourceColumns
                               nonNullExpressions item) selectList)))"
| "inferSelectListItemOutput lib client outsideCTEs sourceColumns nonNullExpressions AllFields =
     mapE columnsToFields
       (mapE (\<lambda>cols. applyExpressionNonNullability nonNullExpressions cols)
          (findNonHiddenSourceColumns sourceColumns))"
| "inferSelectListItemOutput lib client outsideCTEs sourceColumns nonNullExpressions
       (AllTableFields tableName) =
     mapE columnsToFields
       (mapE (\<lambda>cols. applyExpressionNonNullability nonNullExpressions cols)
          (findNonHiddenSourceTableColumns tableName sourceColumns))"
| "inferSelectListItemOutput lib client outsideCTEs sourceColumns nonNullExpressions
       (SelectListExpression expression as) =
     mapE (\<lambda>exprNullability.
             [\<lparr>vf_name = orElseStr as (inferExpressionName expression),
               vf_nullability = exprNullability\<rparr>])
       (inferExpressionNullability lib client outsideCTEs sourceColumns nonNullExpressions
          expression)"
| "inferExpressionNullability lib client outsideCTEs sourceColumns nonNullExprs expression =
     (if list_ex (\<lambda>nonNull. expressionEquals lib expression nonNull) nonNullExprs
      then Inr (Any False)
      else
        (case expression of
           TableColumnRef tbl col \<Rightarrow>
             mapE nullability (findSourceTableColumn tbl col sourceColumns)
         | ColumnRef col \<Rightarrow> mapE nullability (findSourceColumn col sourceColumns)
         | UnaryOp op operand \<Rightarrow>
             (case operatorNullSafety lib op of
                Safe \<Rightarrow> inferExpressionNullability lib client outsideCTEs sourceColumns
                          nonNullExprs operand
              | Unsafe \<Rightarrow> Inr (Any True)
              | AlwaysNull \<Rightarrow> Inr (Any True)
              | NeverNull \<Rightarrow> Inr (Any False))
         | BinaryOp lhs op rhs \<Rightarrow>
             (case operatorNullSafety lib op of
                Safe \<Rightarrow>
                  bindE (inferExpressionNullability lib client outsideCTEs sourceColumns
                           nonNullExprs lhs)
                    (\<lambda>lhsNullability.
                       mapE (\<lambda>rhsNullability.
                               Any (nullable lhsNullability \<or> nullable rhsNullability))
                         (inferExpressionNullability lib client outsideCTEs sourceColumns
                            nonNullExprs rhs))
              | Unsafe \<Rightarrow> Inr (Any True)
              | AlwaysNull \<Rightarrow> Inr (Any True)
              | NeverNull \<Rightarrow> Inr (Any False))
         | ExistsOp subquery \<Rightarrow> Inr (Any False)
         | FunctionCall funcName argList \<Rightarrow>
             (case functionNullSafety lib funcName of
                Safe \<Rightarrow>
                  bindE (sequenceE
                           (map (\<lambda>arg. inferExpressionNullability lib client outsideCTEs
                                          sourceColumns nonNullExprs arg) argList))
                    (\<lambda>argNullability. Inr (Any (list_ex nullable argNullability)))
              | Unsafe \<Rightarrow> Inr (Any True)
              | AlwaysNull \<Rightarrow> Inr (Any True)
              | NeverNull \<Rightarrow> Inr (Any False))
         | InOp lhs subquery \<Rightarrow>
             inferExpressionNullability lib client outsideCTEs sourceColumns nonNullExprs lhs
         | ArraySubQuery subquery \<Rightarrow>
             bindE (getOutputColumns lib client outsideCTEs subquery)
               (\<lambda>cols. case cols of
                          [c] \<Rightarrow> Inr (Array False (nullable (vf_nullability c)))
                        | _ \<Rightarrow> Inl SubqueryMustReturnOneColumn)
         | TypeCast lhs targetType \<Rightarrow>
             inferExpressionNullability lib client outsideCTEs sourceColumns nonNullExprs lhs
         | Constant valueText \<Rightarrow> Inr (Any False)
         | Parameter index \<Rightarrow> Inr (Any True)))"
  by pat_completeness auto

termination
proof -
  have mem: "\<And>(f :: 'a \<Rightarrow> nat) x xs. x \<in> set xs \<Longrightarrow> f x < size_list f xs"
  proof -
    fix f :: "'a \<Rightarrow> nat" and x xs
    show "x \<in> set xs \<Longrightarrow> f x < size_list f xs"
      by (induction xs) auto
  qed
  show ?thesis
    by (relation "measure (\<lambda>x. case x of
    Inl (Inl (lib, client, ctes, tree)) \<Rightarrow> size tree
  | Inl (Inr (Inl (lib, client, withQueries))) \<Rightarrow> size_list (size_withQuery size) withQueries
  | Inl (Inr (Inr (lib, client, ctes, tableExpr, setNullable))) \<Rightarrow> size_option size tableExpr
  | Inr (Inl (Inl (lib, client, ctes, subquery, as))) \<Rightarrow> size subquery + 1
  | Inr (Inl (Inr (lib, client, ctes, sourceColumns, wh, selectList))) \<Rightarrow>
      size_list size selectList
  | Inr (Inr (Inl (lib, client, ctes, sourceColumns, nonNull, item))) \<Rightarrow> size item
  | Inr (Inr (Inr (lib, client, ctes, sourceColumns, nonNull, expression))) \<Rightarrow>
      size expression)")
       (auto dest: mem [where f = size] mem [where f = "size_withQuery size"])
qed

subsection \<open>Row count\<close>

fun isConstantExprOf :: "string \<Rightarrow> expression \<Rightarrow> bool" where
  "isConstantExprOf expectedValue (Constant valueText) = (valueText = expectedValue)"
| "isConstantExprOf expectedValue _ = False"

fun rowCountOf :: "ast \<Rightarrow> statementRowCount" where
  "rowCountOf (Select ctes body lim) =
     (case lim of
        None \<Rightarrow> Many
      | Some (Limit None) \<Rightarrow> Many
      | Some (Limit (Some c)) \<Rightarrow> if isConstantExprOf ''1'' c then ZeroOrOne else Many)"
| "rowCountOf (Insert tbl as cols DefaultValues returning) = One"
| "rowCountOf (Insert tbl as cols (ExprValues valuesList) returning) =
     (if length returning \<noteq> 0
      then (if length valuesList = 1 then One else Many)
      else Zero)"
| "rowCountOf (Update ctes tbl as updates frm wh returning) =
     (if length returning \<noteq> 0 then Many else Zero)"
| "rowCountOf (Delete tbl as wh returning) =
     (if length returning \<noteq> 0 then Many else Zero)"

definition inferRowCount :: "statementDescription \<Rightarrow> ast \<Rightarrow> statementDescription" where
  "inferRowCount statement astNode = statement\<lparr>rowCount := rowCountOf astNode\<rparr>"


subsection \<open>Applying the inferred columns to the statement description\<close>

text \<open>\<open>Array.prototype.join\<close> on an array of strings.\<close>

fun joinWith :: "string \<Rightarrow> string list \<Rightarrow> string" where
  "joinWith sep [] = []"
| "joinWith sep [x] = x"
| "joinWith sep (x # y # ys) = x @ sep @ joinWith sep (y # ys)"

definition applyColumnNullability ::
  "statementDescription \<Rightarrow> virtualField list \<Rightarrow> error + statementDescription" where
  "applyColumnNullability stmt outputColumns =
     (if length outputColumns \<noteq> length (columns stmt)
      then Inl (NonEqualNumberOfColumns (length outputColumns) (length (columns stmt)))
      else
        (let inferredColumnNames = joinWith '', '' (map vf_name outputColumns);
             actualColumnNames = joinWith '', '' (map nv_name (columns stmt))
         in if inferredColumnNames \<noteq> actualColumnNames
            then Inl (ColumnNamesDiffer inferredColumnNames actualColumnNames)
            else Inr (stmt\<lparr>columns :=
                   map2 (\<lambda>column inferred.
                           case vf_nullability inferred of
                             Any n \<Rightarrow> column\<lparr>nv_nullable := n\<rparr>
                           | Array n e \<Rightarrow>
                               column\<lparr>nv_type := ArrayType (oid (nv_type column)) e,
                                      nv_nullable := n\<rparr>)
                     (columns stmt) outputColumns\<rparr>)))"

definition inferColumnNullability ::
  "lib \<Rightarrow> schemaClient \<Rightarrow> statementDescription \<Rightarrow> ast \<Rightarrow> error + statementDescription" where
  "inferColumnNullability lib client statement tree =
     bindE (getOutputColumns lib client [] tree)
       (\<lambda>outputColumns. applyColumnNullability statement outputColumns)"

subsection \<open>Parameter nullability\<close>

text \<open>Index 0 means param \<open>$1\<close>, index 1 means param \<open>$2\<close>.\<close>

record paramNullability =
  pn_index :: int
  pn_nullable :: bool

fun paramIndexFromExpr :: "expression option \<Rightarrow> int option" where
  "paramIndexFromExpr None = None"
| "paramIndexFromExpr (Some (Parameter index)) = Some (index - 1)"
| "paramIndexFromExpr (Some _) = None"

definition findTableColumn :: "string \<Rightarrow> dbTable \<Rightarrow> error + column" where
  "findTableColumn colName tbl =
     (case find (\<lambda>column. col_name column = colName) (tbl_columns tbl) of
        None \<Rightarrow> Inl (UnknownColumn colName)
      | Some c \<Rightarrow> Inr c)"

fun findParamsFromValues :: "expression valuesClause \<Rightarrow> nat \<Rightarrow> int option list list" where
  "findParamsFromValues DefaultValues numInsertColumns = [replicate numInsertColumns None]"
| "findParamsFromValues (ExprValues valuesList) numInsertColumns =
     map (\<lambda>vals. map paramIndexFromExpr vals) valuesList"

definition makeParamNullability :: "int option \<Rightarrow> column \<Rightarrow> paramNullability option" where
  "makeParamNullability index column =
     map_option (\<lambda>index. \<lparr>pn_index = index, pn_nullable = col_nullable column\<rparr>) index"

fun updateToParamNullability ::
  "dbTable \<Rightarrow> expression updateAssignment \<Rightarrow> error + paramNullability option" where
  "updateToParamNullability dbTable (UpdateAssignment colName val) =
     mapE (makeParamNullability (paramIndexFromExpr val)) (findTableColumn colName dbTable)"

definition findParamNullabilityFromUpdates ::
  "schemaClient \<Rightarrow> tableRef \<Rightarrow> expression updateAssignment list
     \<Rightarrow> error + paramNullability list" where
  "findParamNullabilityFromUpdates client tbl updates =
     mapE (\<lambda>paramNullabilities. List.map_filter id paramNullabilities)
       (bindE (client (schema tbl) (table tbl))
          (\<lambda>dbTable. sequenceE (map (\<lambda>update. updateToParamNullability dbTable update) updates)))"

definition findInsertColumns ::
  "schemaClient \<Rightarrow> tableRef \<Rightarrow> string list \<Rightarrow> error + column list" where
  "findInsertColumns client tbl columnNames =
     bindE (client (schema tbl) (table tbl))
       (\<lambda>dbTable. sequenceE (map (\<lambda>colName. findTableColumn colName dbTable) columnNames))"

definition combineParamNullability ::
  "int option list list \<Rightarrow> column list \<Rightarrow> paramNullability list" where
  "combineParamNullability valuesListParams targetColumns =
     List.map_filter id
       (concat
          (map (\<lambda>valuesParams.
                  map (\<lambda>(column, param).
                         map_option
                           (\<lambda>index. \<lparr>pn_index = index, pn_nullable = col_nullable column\<rparr>)
                           param)
                    (zip targetColumns valuesParams))
             valuesListParams))"

fun getParamNullability ::
  "schemaClient \<Rightarrow> ast \<Rightarrow> error + paramNullability list option" where
  "getParamNullability client (Select ctes body lim) = Inr None"
| "getParamNullability client (Insert tbl as cols vals returning) =
     mapE (\<lambda>targetColumns.
             Some (combineParamNullability (findParamsFromValues vals (length cols))
                     targetColumns))
       (findInsertColumns client tbl cols)"
| "getParamNullability client (Update ctes tbl as updates frm wh returning) =
     mapE Some (findParamNullabilityFromUpdates client tbl updates)"
| "getParamNullability client (Delete tbl as wh returning) = Inr None"

definition applyParamNullability ::
  "statementDescription \<Rightarrow> paramNullability list \<Rightarrow> error + statementDescription" where
  "applyParamNullability stmt paramNullability =
     (let nullability =
            map (\<lambda>index. list_ex pn_nullable
                            (filter (\<lambda>record. pn_index record = int index) paramNullability))
              [0..<length (params stmt)]
      in Inr (stmt\<lparr>params :=
                map2 (\<lambda>param nullable. param\<lparr>p_nullable := nullable\<rparr>)
                  (params stmt) nullability\<rparr>))"

text \<open>A list of records, even an empty one, is truthy; only \<open>null\<close> (the
  SELECT and DELETE cases) leaves the statement as it is.\<close>

definition inferParamNullability ::
  "schemaClient \<Rightarrow> statementDescription \<Rightarrow> ast \<Rightarrow> error + statementDescription" where
  "inferParamNullability client statement tree =
     bindE (getParamNullability client tree)
       (\<lambda>paramNullability.
          case paramNullability of
            Some records \<Rightarrow> applyParamNullability statement records
          | None \<Rightarrow> Inr statement)"

subsection \<open>The entry point\<close>

fun orElseE :: "'e + 'a \<Rightarrow> ('e \<Rightarrow> 'f + 'a) \<Rightarrow> 'f + 'a" where
  "orElseE (Inl e) f = f e"
| "orElseE (Inr a) f = Inr a"

text \<open>
  The handler of \<open>TaskEither.orElse\<close> writes a warning to the console (a longer
  one when \<open>verbose\<close> is set) and returns the statement it was given; the console
  is not part of the model.
\<close>

definition inferStatementNullability ::
  "lib \<Rightarrow> schemaClient \<Rightarrow> bool \<Rightarrow> statementDescription \<Rightarrow> error + statementDescription" where
  "inferStatementNullability lib client verbose statement =
     orElseE
       (bindE (parse lib (sql statement))
          (\<lambda>astNode.
             mapE (\<lambda>stmt. inferRowCount stmt astNode)
               (bindE (inferColumnNullability lib client statement astNode)
                  (\<lambda>stmt. inferParamNullability client stmt astNode))))
       (\<lambda>parseErrorStr. Inr statement)"

section \<open>The statement of the spec's WHERE recursion\<close>

text \<open>
  The recursion as the specification words it: \<open>A AND B\<close> recurses into both
  conjuncts; a unary \<open>IS NOT NULL\<close> or \<open>NOTNULL\<close> of \<open>E\<close> gives \<open>E\<close>; a
  NULL-safe binary operator gives its two operands; a NULL-safe function call
  gives its arguments; anything else gives nothing.
\<close>

fun whereNonNullSpec :: "lib \<Rightarrow> expression \<Rightarrow> expression list" where
  "whereNonNullSpec lib (BinaryOp a op b) =
     (if op = ''AND'' then whereNonNullSpec lib a @ whereNonNullSpec lib b
      else if operatorNullSafety lib op = Safe then [a, b]
      else [])"
| "whereNonNullSpec lib (UnaryOp op e) =
     (if op = ''IS NOT NULL'' \<or> op = ''NOTNULL'' then [e] else [])"
| "whereNonNullSpec lib (FunctionCall f args) =
     (if functionNullSafety lib f = Safe then args else [])"
| "whereNonNullSpec lib _ = []"

section \<open>An example schema and example statements\<close>

text \<open>The table of the test setup: \<open>person (id serial PRIMARY KEY, name varchar(255)
  NOT NULL, age integer)\<close>.\<close>

definition personTable :: dbTable where
  "personTable =
     \<lparr>tbl_name = ''person'',
      tbl_columns =
        [\<lparr>col_name = ''id'', col_nullable = False, col_hidden = False\<rparr>,
         \<lparr>col_name = ''name'', col_nullable = False, col_hidden = False\<rparr>,
         \<lparr>col_name = ''age'', col_nullable = True, col_hidden = False\<rparr>]\<rparr>"

definition personClient :: schemaClient where
  "personClient sch tableName =
     (if tableName = ''person'' then Inr personTable else Inl (SchemaError tableName))"

definition personRef :: tableRef where
  "personRef = \<lparr>schema = None, table = ''person''\<rparr>"

definition personColumnsAs :: "string \<Rightarrow> sourceColumn list" where
  "personColumnsAs alias =
     [\<lparr>tableAlias = alias, columnName = ''id'', nullability = Any False, hidden = False\<rparr>,
      \<lparr>tableAlias = alias, columnName = ''name'', nullability = Any False, hidden = False\<rparr>,
      \<lparr>tableAlias = alias, columnName = ''age'', nullability = Any True, hidden = False\<rparr>]"

text \<open>A CTE in scope whose only column is an array with non-null elements.\<close>

definition tagsCTE :: virtualTable where
  "tagsCTE =
     \<lparr>vt_name = ''tags'',
      vt_columns = [\<lparr>vf_name = ''labels'', vf_nullability = Array False False\<rparr>]\<rparr>"

definition tagsRef :: tableRef where
  "tagsRef = \<lparr>schema = None, table = ''tags''\<rparr>"

text \<open>\<open>SELECT 1\<close>, probed (wrongly) with no output column.\<close>

definition selectOneAst :: ast where
  "selectOneAst =
     Select [] (SelectBody [SelectListExpression (Constant ''1'') None] None None) None"

definition selectOneRaw :: statementDescription where
  "selectOneRaw = \<lparr>sql = ''SELECT 1'', columns = [], params = [], rowCount = Many\<rparr>"

text \<open>An instance of the imported tables: the operators the specification names
  as NULL-safe, structural equality of expressions, and a parser that knows
  one statement.\<close>

definition exampleLib :: lib where
  "exampleLib =
     \<lparr>operatorNullSafety =
        (\<lambda>op. if op \<in> set [''+'', ''-'', ''='', ''<'', ''||''] then Safe else Unsafe),
      functionNullSafety = (\<lambda>funcName. Unsafe),
      expressionEquals = (\<lambda>a b. a = b),
      parse = (\<lambda>text. if text = ''SELECT 1'' then Inr selectOneAst else Inl (ParseError text))\<rparr>"

text \<open>\<open>UPDATE person SET name = $1 WHERE id = $2\<close>, both parameters probed as
  nullable.\<close>

definition updateAst :: ast where
  "updateAst =
     Update [] personRef None [UpdateAssignment ''name'' (Some (Parameter 1))] None
       (Some (BinaryOp (ColumnRef ''id'') ''='' (Parameter 2))) []"

definition updateRaw :: statementDescription where
  "updateRaw =
     \<lparr>sql = ''UPDATE person SET name = $1 WHERE id = $2'',
      columns = [],
      params = [\<lparr>p_type = AnyType 1043, p_nullable = True\<rparr>,
                \<lparr>p_type = AnyType 23, p_nullable = True\<rparr>],
      rowCount = Many\<rparr>"

text \<open>\<open>SELECT * FROM person WHERE person.id IS NOT NULL\<close>\<close>

definition selectPersonWhereIdAst :: ast where
  "selectPersonWhereIdAst =
     Select []
       (SelectBody [AllFields] (Some (Table personRef None))
          (Some (UnaryOp ''IS NOT NULL'' (TableColumnRef ''person'' ''id''))))
       None"

text \<open>\<open>SELECT 1 AS x\<close> and \<open>SELECT * FROM t\<close> under a WITH clause.\<close>

definition selectOneAsX :: ast where
  "selectOneAsX =
     Select [] (SelectBody [SelectListExpression (Constant ''1'') (Some ''x'')] None None) None"

definition selectAllFrom :: "string \<Rightarrow> ast withQuery list \<Rightarrow> ast" where
  "selectAllFrom tableName ctes =
     Select ctes
       (SelectBody [AllFields] (Some (Table \<lparr>schema = None, table = tableName\<rparr> None)) None)
       None"

text \<open>\<open>WITH a AS (SELECT 1 AS x)
  SELECT * FROM (WITH b AS (SELECT * FROM a) SELECT * FROM b) AS s\<close>\<close>

definition nestedWithAst :: ast where
  "nestedWithAst =
     Select [WithQuery ''a'' selectOneAsX]
       (SelectBody [AllFields]
          (Some (SubQuery (selectAllFrom ''b'' [WithQuery ''b'' (selectAllFrom ''a'' [])]) ''s''))
          None)
       None"

text \<open>\<open>WITH a AS (SELECT 1 AS x) SELECT * FROM (SELECT * FROM a) AS s\<close>\<close>

definition nestedBodyAst :: ast where
  "nestedBodyAst =
     Select [WithQuery ''a'' selectOneAsX]
       (SelectBody [AllFields] (Some (SubQuery (selectAllFrom ''a'' []) ''s'')) None)
       None"

text \<open>Two probed columns named \<open>a, b\<close> and \<open>c\<close>, against inferred columns named
  \<open>a\<close> and \<open>b, c\<close>.\<close>

definition commaRaw :: statementDescription where
  "commaRaw =
     \<lparr>sql = ''SELECT ...'',
      columns = [\<lparr>nv_name = ''a, b'', nv_type = AnyType 23, nv_nullable = True\<rparr>,
                 \<lparr>nv_name = ''c'', nv_type = AnyType 23, nv_nullable = True\<rparr>],
      params = [],
      rowCount = Many\<rparr>"

definition commaInferred :: "virtualField list" where
  "commaInferred =
     [\<lparr>vf_name = ''a'', vf_nullability = Any False\<rparr>,
      \<lparr>vf_name = ''b, c'', vf_nullability = Array True False\<rparr>]"



section \<open>Properties\<close>

lemmas eval_defs =
  combineVirtualTables_def getSourceColumnsForTable_def findNonHiddenSourceColumns_def
  applyExpressionNonNullability_def isColumnNonNullable_def List.map_filter_def
  columnsToFields_def combineSourceColumns_def setSourceColumnsAsNullable_def
  personRef_def personClient_def personTable_def

subsection \<open>Parameter nullability\<close>

lemma updateAst_records:
  "getParamNullability personClient updateAst =
     Inr (Some [\<lparr>pn_index = 0, pn_nullable = False\<rparr>])"
  by (simp add: updateAst_def personClient_def personRef_def personTable_def
      findParamNullabilityFromUpdates_def findTableColumn_def makeParamNullability_def
      List.map_filter_def)

lemma applyParamNullability_length:
  "applyParamNullability stmt records = Inr stmt' \<Longrightarrow>
     length (params stmt') = length (params stmt)"
  by (auto simp: applyParamNullability_def)

lemma applyParamNullability_nth:
  assumes "applyParamNullability stmt records = Inr stmt'" and "i < length (params stmt)"
  shows "params stmt' ! i =
           (params stmt ! i)\<lparr>p_nullable :=
              (\<exists>r \<in> set records. pn_index r = int i \<and> pn_nullable r)\<rparr>"
  using assms by (auto simp: applyParamNullability_def list_ex_iff Bex_def)

text \<open>
  C1, as the code has it. When the statement yields a list of binding records
  (INSERT and UPDATE), the pass overwrites the nullability of every parameter:
  index \<open>i\<close> is nullable iff some record for \<open>i\<close> is nullable, so an index with
  no record becomes non-nullable whatever the probe said; the parameter's type
  is kept. A SELECT or a DELETE yields no list and the description is returned
  as it came.
\<close>

theorem inferParamNullability_merge:
  assumes "getParamNullability client tree = Inr (Some records)"
  shows "(\<exists>stmt'. inferParamNullability client stmt tree = Inr stmt'
           \<and> length (params stmt') = length (params stmt)
           \<and> (\<forall>i < length (params stmt).
                 p_nullable (params stmt' ! i) =
                   (\<exists>r \<in> set records. pn_index r = int i \<and> pn_nullable r)
                 \<and> p_type (params stmt' ! i) = p_type (params stmt ! i)))
       \<and> inferParamNullability client stmt (Select ctes body lim) = Inr stmt
       \<and> inferParamNullability client stmt (Delete tbl as wh returning) = Inr stmt"
proof -
  obtain stmt' where s: "applyParamNullability stmt records = Inr stmt'"
    by (simp add: applyParamNullability_def)
  have "inferParamNullability client stmt tree = Inr stmt'"
    using assms s by (simp add: inferParamNullability_def)
  moreover have "length (params stmt') = length (params stmt)"
    using s by (rule applyParamNullability_length)
  moreover have "\<forall>i < length (params stmt).
      p_nullable (params stmt' ! i) = (\<exists>r \<in> set records. pn_index r = int i \<and> pn_nullable r)
      \<and> p_type (params stmt' ! i) = p_type (params stmt ! i)"
    using applyParamNullability_nth [OF s] by simp
  moreover have "inferParamNullability client stmt (Select ctes body lim) = Inr stmt"
    by (simp add: inferParamNullability_def)
  moreover have "inferParamNullability client stmt (Delete tbl as wh returning) = Inr stmt"
    by (simp add: inferParamNullability_def)
  ultimately show ?thesis by blast
qed

text \<open>The theorem at \<open>UPDATE person SET name = $1 WHERE id = $2\<close>: one record, for
  index 0; both parameters come out non-nullable.\<close>

theorem inferParamNullability_merge_witness:
  "getParamNullability personClient updateAst =
     Inr (Some [\<lparr>pn_index = 0, pn_nullable = False\<rparr>])
   \<and> (\<exists>stmt'. inferParamNullability personClient updateRaw updateAst = Inr stmt'
         \<and> length (params stmt') = 2
         \<and> p_nullable (params stmt' ! 0) = False
         \<and> p_nullable (params stmt' ! 1) = False)"
proof -
  have h: "getParamNullability personClient updateAst =
     Inr (Some [\<lparr>pn_index = 0, pn_nullable = False\<rparr>])"
    by (rule updateAst_records)
  from inferParamNullability_merge [OF h, of updateRaw] obtain stmt' where
    r: "inferParamNullability personClient updateRaw updateAst = Inr stmt'"
    and l: "length (params stmt') = length (params updateRaw)"
    and n: "\<forall>i < length (params updateRaw).
          p_nullable (params stmt' ! i) =
            (\<exists>r \<in> set [\<lparr>pn_index = 0, pn_nullable = False\<rparr>]. pn_index r = int i \<and> pn_nullable r)
          \<and> p_type (params stmt' ! i) = p_type (params updateRaw ! i)"
    by blast
  have len: "length (params updateRaw) = 2" by (simp add: updateRaw_def)
  have "p_nullable (params stmt' ! 0) = False" using n len by simp
  moreover have "p_nullable (params stmt' ! 1) = False" using n len by simp
  ultimately show ?thesis using h r l len by auto
qed

text \<open>
  C1, as the claim words it, fails on \<open>UPDATE person SET name = $1 WHERE id = $2\<close>:
  the only record is for index 0, index 1 was probed nullable, and the pass
  returns it non-nullable.
\<close>

theorem inferParamNullability_unbound_counterexample:
  "getParamNullability personClient updateAst =
     Inr (Some [\<lparr>pn_index = 0, pn_nullable = False\<rparr>])
   \<and> p_nullable (params updateRaw ! 1) = True
   \<and> inferParamNullability personClient updateRaw updateAst =
       Inr (updateRaw\<lparr>params := [\<lparr>p_type = AnyType 1043, p_nullable = False\<rparr>,
                                   \<lparr>p_type = AnyType 23, p_nullable = False\<rparr>]\<rparr>)"
  by (simp add: updateAst_records inferParamNullability_def applyParamNullability_def
      updateRaw_def upt_rec)

subsection \<open>WHERE-based refinement of source columns\<close>

lemma isColumnNonNullable_unqualified:
  "isColumnNonNullable [\<lparr>nn_tableName = None, nn_columnName = c\<rparr>] sc =
     (columnName sc = c)"
  by (simp add: isColumnNonNullable_def)

lemma isColumnNonNullable_qualified:
  "isColumnNonNullable [\<lparr>nn_tableName = Some t, nn_columnName = c\<rparr>] sc =
     (if t \<noteq> [] then tableAlias sc = t else columnName sc = c)"
  by (auto simp: isColumnNonNullable_def)

text \<open>
  C2. A qualified reference is meant to force a source column to non-nullable
  when both the table alias and the column name match. On
  \<open>SELECT * FROM person WHERE person.id IS NOT NULL\<close> the code forces every
  column of \<open>person\<close>, also the nullable \<open>age\<close>, to non-nullable: the conditional
  of \<open>isColumnNonNullable\<close> compares the column name only in its else branch.
\<close>

theorem tableColumnRef_refinement_eval:
  "getOutputColumns exampleLib personClient [] selectPersonWhereIdAst =
     Inr [\<lparr>vf_name = ''id'', vf_nullability = Any False\<rparr>,
          \<lparr>vf_name = ''name'', vf_nullability = Any False\<rparr>,
          \<lparr>vf_name = ''age'', vf_nullability = Any False\<rparr>]"
  by (simp add: selectPersonWhereIdAst_def eval_defs)

subsection \<open>The entry point\<close>

text \<open>
  C3, as the code has it. The entry point never returns an error: when the
  parser fails, and when the column pass (its structural mismatch included) or
  the parameter pass fails, the result is the description it was given;
  otherwise it is the enriched description.
\<close>

theorem inferStatementNullability_never_err:
  "\<not> isl (inferStatementNullability lib client verbose statement)
   \<and> inferStatementNullability lib client verbose statement =
       (case parse lib (sql statement) of
          Inl e \<Rightarrow> Inr statement
        | Inr astNode \<Rightarrow>
            (case inferColumnNullability lib client statement astNode of
               Inl e \<Rightarrow> Inr statement
             | Inr stmt \<Rightarrow>
                 (case inferParamNullability client stmt astNode of
                    Inl e \<Rightarrow> Inr statement
                  | Inr stmt' \<Rightarrow> Inr (inferRowCount stmt' astNode))))"
  by (simp add: inferStatementNullability_def split: sum.splits)

text \<open>
  C3, as the claim words it, fails on \<open>SELECT 1\<close> probed with no output column:
  the column pass reports one inferred column against none, and the entry point
  still returns the description unchanged.
\<close>

theorem inferStatementNullability_mismatch_counterexample:
  "parse exampleLib (sql selectOneRaw) = Inr selectOneAst
   \<and> inferColumnNullability exampleLib personClient selectOneRaw selectOneAst =
       Inl (NonEqualNumberOfColumns 1 0)
   \<and> inferStatementNullability exampleLib personClient False selectOneRaw = Inr selectOneRaw"
  by (simp add: inferStatementNullability_def inferColumnNullability_def exampleLib_def
      selectOneRaw_def selectOneAst_def combineVirtualTables_def applyColumnNullability_def)

subsection \<open>WITH clauses\<close>

text \<open>
  C4. A CTE of a nested WITH clause should see the CTEs of the enclosing
  statement. The body of a subquery does: \<open>SELECT * FROM a\<close> under
  \<open>WITH a AS (SELECT 1 AS x)\<close> resolves \<open>a\<close>. A CTE of the subquery does not:
  \<open>getVirtualTablesForWithQueries\<close> starts from an empty list, so \<open>a\<close> is looked
  up in the database schema and the inference fails.
\<close>

theorem nested_with_outer_cte_eval:
  "getOutputColumns exampleLib personClient [] nestedBodyAst =
     Inr [\<lparr>vf_name = ''x'', vf_nullability = Any False\<rparr>]
   \<and> getOutputColumns exampleLib personClient [] nestedWithAst = Inl (SchemaError ''a'')"
  by (simp add: nestedBodyAst_def nestedWithAst_def selectOneAsX_def selectAllFrom_def
      exampleLib_def eval_defs)

subsection \<open>Joins\<close>

lemma mapE_ident: "mapE (\<lambda>x. x) r = r"
  by (cases r) simp_all

lemma getSourceColumnsForTableExpr_forced:
  "getSourceColumnsForTableExpr lib client ctes (Some t) True =
     mapE setSourceColumnsAsNullable (getSourceColumnsForTableExpr lib client ctes (Some t) False)"
proof -
  have "mapE (\<lambda>sourceColumns. setSourceColumnsAsNullable sourceColumns) r =
        mapE setSourceColumnsAsNullable (mapE (\<lambda>sourceColumns. sourceColumns) r)"
    for r :: "error + sourceColumn list"
    by (cases r) simp_all
  then show ?thesis
    by (simp del: getSourceColumnsForTableExpr.simps
          add: getSourceColumnsForTableExpr.simps(2) [of lib client ctes t])
qed

lemma setSourceColumnsAsNullable_eq:
  "setSourceColumnsAsNullable cs =
     map (\<lambda>c. c\<lparr>nullability :=
                  (case nullability c of Any n \<Rightarrow> Any True | Array n e \<Rightarrow> Array True e)\<rparr>) cs"
  unfolding setSourceColumnsAsNullable_def
  by (rule map_cong) (auto split: fieldNullability.splits)

text \<open>
  C5. When both sides of a join resolve, the join's source columns are the left
  columns followed by the right columns, where a CROSS or INNER join changes
  neither side, a LEFT join forces the right side, a RIGHT join the left side
  and a FULL join both. Forcing sets the outer \<open>nullable\<close> flag of each column
  to true and keeps the kind and, for an array, the element nullability. A
  join that is itself on a forced side is forced as a whole.
\<close>

theorem join_nullability:
  assumes L: "getSourceColumnsForTableExpr lib client ctes (Some left) False = Inr ls"
      and R: "getSourceColumnsForTableExpr lib client ctes (Some right) False = Inr rs"
  shows "getSourceColumnsForTableExpr lib client ctes (Some (CrossJoin left right)) False =
           Inr (ls @ rs)
       \<and> getSourceColumnsForTableExpr lib client ctes (Some (QualifiedJoin left INNER right)) False =
           Inr (ls @ rs)
       \<and> getSourceColumnsForTableExpr lib client ctes (Some (QualifiedJoin left LEFT right)) False =
           Inr (ls @ setSourceColumnsAsNullable rs)
       \<and> getSourceColumnsForTableExpr lib client ctes (Some (QualifiedJoin left RIGHT right)) False =
           Inr (setSourceColumnsAsNullable ls @ rs)
       \<and> getSourceColumnsForTableExpr lib client ctes (Some (QualifiedJoin left FULL right)) False =
           Inr (setSourceColumnsAsNullable ls @ setSourceColumnsAsNullable rs)
       \<and> setSourceColumnsAsNullable cs =
           map (\<lambda>c. c\<lparr>nullability :=
                  (case nullability c of Any n \<Rightarrow> Any True | Array n e \<Rightarrow> Array True e)\<rparr>) cs
       \<and> getSourceColumnsForTableExpr lib client ctes (Some (QualifiedJoin left jt right)) True =
           mapE setSourceColumnsAsNullable
             (getSourceColumnsForTableExpr lib client ctes (Some (QualifiedJoin left jt right)) False)"
proof -
  have L': "getSourceColumnsForTableExpr lib client ctes (Some left) True =
      Inr (setSourceColumnsAsNullable ls)"
    by (simp only: getSourceColumnsForTableExpr_forced L mapE.simps)
  have R': "getSourceColumnsForTableExpr lib client ctes (Some right) True =
      Inr (setSourceColumnsAsNullable rs)"
    by (simp only: getSourceColumnsForTableExpr_forced R mapE.simps)
  have c: "getSourceColumnsForTableExpr lib client ctes (Some (CrossJoin left right)) False =
      Inr (ls @ rs)"
    by (subst getSourceColumnsForTableExpr.simps(2))
      (simp del: getSourceColumnsForTableExpr.simps add: L R combineSourceColumns_def)
  have q: "getSourceColumnsForTableExpr lib client ctes (Some (QualifiedJoin left j right)) False =
      combineSourceColumns
        (getSourceColumnsForTableExpr lib client ctes (Some left) (j = RIGHT \<or> j = FULL))
        (getSourceColumnsForTableExpr lib client ctes (Some right) (j = LEFT \<or> j = FULL))" for j
    by (subst getSourceColumnsForTableExpr.simps(2))
      (simp del: getSourceColumnsForTableExpr.simps add: mapE_ident)
  have f: "getSourceColumnsForTableExpr lib client ctes (Some (QualifiedJoin left jt right)) True =
      mapE setSourceColumnsAsNullable
        (getSourceColumnsForTableExpr lib client ctes (Some (QualifiedJoin left jt right)) False)"
    by (rule getSourceColumnsForTableExpr_forced)
  have joins: "getSourceColumnsForTableExpr lib client ctes (Some (QualifiedJoin left INNER right)) False =
           Inr (ls @ rs)
       \<and> getSourceColumnsForTableExpr lib client ctes (Some (QualifiedJoin left LEFT right)) False =
           Inr (ls @ setSourceColumnsAsNullable rs)
       \<and> getSourceColumnsForTableExpr lib client ctes (Some (QualifiedJoin left RIGHT right)) False =
           Inr (setSourceColumnsAsNullable ls @ rs)
       \<and> getSourceColumnsForTableExpr lib client ctes (Some (QualifiedJoin left FULL right)) False =
           Inr (setSourceColumnsAsNullable ls @ setSourceColumnsAsNullable rs)"
    by (simp del: getSourceColumnsForTableExpr.simps
          add: q L R L' R' combineSourceColumns_def)
  show ?thesis
    using c joins f setSourceColumnsAsNullable_eq [of cs] by blast
qed

text \<open>The theorem at \<open>person AS p LEFT JOIN tags\<close>, where \<open>tags\<close> is a CTE with an
  array column: the columns of \<open>p\<close> are unchanged, the array column becomes
  nullable and its elements stay non-null.\<close>

theorem join_nullability_witness:
  "getSourceColumnsForTableExpr exampleLib personClient [tagsCTE]
       (Some (Table personRef (Some ''p''))) False = Inr (personColumnsAs ''p'')
   \<and> getSourceColumnsForTableExpr exampleLib personClient [tagsCTE]
       (Some (Table tagsRef None)) False =
         Inr [\<lparr>tableAlias = ''tags'', columnName = ''labels'',
               nullability = Array False False, hidden = False\<rparr>]
   \<and> getSourceColumnsForTableExpr exampleLib personClient [tagsCTE]
       (Some (QualifiedJoin (Table personRef (Some ''p'')) LEFT (Table tagsRef None))) False =
         Inr (personColumnsAs ''p'' @
              [\<lparr>tableAlias = ''tags'', columnName = ''labels'',
                nullability = Array True False, hidden = False\<rparr>])"
proof -
  have L: "getSourceColumnsForTableExpr exampleLib personClient [tagsCTE]
       (Some (Table personRef (Some ''p''))) False = Inr (personColumnsAs ''p'')"
    by (simp add: eval_defs tagsCTE_def personColumnsAs_def)
  have R: "getSourceColumnsForTableExpr exampleLib personClient [tagsCTE]
       (Some (Table tagsRef None)) False =
         Inr [\<lparr>tableAlias = ''tags'', columnName = ''labels'',
               nullability = Array False False, hidden = False\<rparr>]"
    by (simp add: eval_defs tagsCTE_def tagsRef_def)
  show ?thesis
    using join_nullability [OF L R] L R
    by (simp del: getSourceColumnsForTableExpr.simps add: setSourceColumnsAsNullable_def)
qed

subsection \<open>Non-null expressions of a WHERE clause\<close>

lemma getNonNull_spec:
  "getNonNullExpressionsFromWhere lib (Some wh) = whereNonNullSpec lib wh"
  by (induction lib wh rule: whereNonNullSpec.induct) simp_all

text \<open>
  C6. The list collected from a WHERE clause is the one the recursion of the
  specification gives (nothing for an absent clause). An \<open>OR\<close> is never
  recursed into: it gives its two operands if the operator table classifies it
  NULL-safe and nothing otherwise. A \<open>NOT\<close> gives nothing.
\<close>

theorem getNonNullExpressionsFromWhere_spec:
  "getNonNullExpressionsFromWhere lib None = []
   \<and> getNonNullExpressionsFromWhere lib (Some wh) = whereNonNullSpec lib wh
   \<and> getNonNullExpressionsFromWhere lib (Some (BinaryOp l ''OR'' r)) =
       (if operatorNullSafety lib ''OR'' = Safe then [l, r] else [])
   \<and> getNonNullExpressionsFromWhere lib (Some (UnaryOp ''NOT'' e)) = []"
  by (simp add: getNonNull_spec)

subsection \<open>Name alignment and the select list\<close>

text \<open>
  C8. The name alignment compares the two column-name lists by joining each
  with \<open>", "\<close> and comparing the joined strings: the validation accepts
  exactly when the two lists have the same length and the same joined string,
  and then returns the description with each column's nullability (and, for an
  array, its type) overwritten. So it accepts name lists that differ
  element-wise: the probed names \<open>a, b\<close> and \<open>c\<close> and the inferred names \<open>a\<close>
  and \<open>b, c\<close> differ at both positions, both join to \<open>a, b, c\<close>, and the
  statement is enriched; the inferred names \<open>a\<close> and \<open>c\<close> are rejected.
\<close>

theorem applyColumnNullability_join_collision:
  "(\<not> isl (applyColumnNullability stmt outputColumns)) =
     (length outputColumns = length (columns stmt)
      \<and> joinWith '', '' (map vf_name outputColumns) =
          joinWith '', '' (map nv_name (columns stmt)))
   \<and> applyColumnNullability stmt outputColumns =
       (if length outputColumns = length (columns stmt)
           \<and> joinWith '', '' (map vf_name outputColumns) =
               joinWith '', '' (map nv_name (columns stmt))
        then Inr (stmt\<lparr>columns :=
               map2 (\<lambda>column inferred.
                       case vf_nullability inferred of
                         Any n \<Rightarrow> column\<lparr>nv_nullable := n\<rparr>
                       | Array n e \<Rightarrow>
                           column\<lparr>nv_type := ArrayType (oid (nv_type column)) e,
                                  nv_nullable := n\<rparr>)
                 (columns stmt) outputColumns\<rparr>)
        else if length outputColumns = length (columns stmt)
        then Inl (ColumnNamesDiffer (joinWith '', '' (map vf_name outputColumns))
                    (joinWith '', '' (map nv_name (columns stmt))))
        else Inl (NonEqualNumberOfColumns (length outputColumns) (length (columns stmt))))
   \<and> joinWith sep [] = []
   \<and> joinWith sep [x] = x
   \<and> joinWith sep (x # y # ys) = x @ sep @ joinWith sep (y # ys)
   \<and> length commaInferred = length (columns commaRaw)
   \<and> map vf_name commaInferred \<noteq> map nv_name (columns commaRaw)
   \<and> vf_name (commaInferred ! 0) \<noteq> nv_name (columns commaRaw ! 0)
   \<and> vf_name (commaInferred ! 1) \<noteq> nv_name (columns commaRaw ! 1)
   \<and> joinWith '', '' (map vf_name commaInferred) = ''a, b, c''
   \<and> joinWith '', '' (map nv_name (columns commaRaw)) = ''a, b, c''
   \<and> applyColumnNullability commaRaw commaInferred =
       Inr (commaRaw\<lparr>columns :=
              [\<lparr>nv_name = ''a, b'', nv_type = AnyType 23, nv_nullable = False\<rparr>,
               \<lparr>nv_name = ''c'', nv_type = ArrayType 23 False, nv_nullable = True\<rparr>]\<rparr>)
   \<and> applyColumnNullability commaRaw
         [\<lparr>vf_name = ''a'', vf_nullability = Any False\<rparr>,
          \<lparr>vf_name = ''c'', vf_nullability = Any False\<rparr>] =
       Inl (ColumnNamesDiffer ''a, c'' ''a, b, c'')"
  by (simp add: commaRaw_def commaInferred_def applyColumnNullability_def Let_def)

subsection \<open>The select list over a scope without visible columns\<close>















subsection \<open>Row count\<close>

text \<open>
  C7. The row count is read off the top-level statement: a SELECT is
  \<open>zeroOrOne\<close> when its LIMIT count is the constant 1 and \<open>many\<close> otherwise; an
  INSERT of DEFAULT VALUES is \<open>one\<close>; an INSERT of a VALUES list is \<open>zero\<close>
  without RETURNING, \<open>one\<close> with RETURNING and exactly one tuple, \<open>many\<close> with
  RETURNING and any other number of tuples; UPDATE and DELETE are \<open>many\<close> with
  RETURNING and \<open>zero\<close> without. The description passed in plays no part.
\<close>

theorem inferRowCount_shape:
  "rowCount (inferRowCount statement (Select ctes body None)) = Many
   \<and> rowCount (inferRowCount statement (Select ctes body (Some (Limit None)))) = Many
   \<and> rowCount (inferRowCount statement (Select ctes body (Some (Limit (Some c))))) =
       (if c = Constant ''1'' then ZeroOrOne else Many)
   \<and> rowCount (inferRowCount statement (Insert tbl as cols DefaultValues returning)) = One
   \<and> rowCount (inferRowCount statement (Insert tbl as cols (ExprValues valuesList) returning)) =
       (if returning = [] then Zero else if length valuesList = 1 then One else Many)
   \<and> rowCount (inferRowCount statement (Update ctes tbl as updates frm wh returning)) =
       (if returning = [] then Zero else Many)
   \<and> rowCount (inferRowCount statement (Delete tbl as wh returning)) =
       (if returning = [] then Zero else Many)"
  by (cases c) (simp_all add: inferRowCount_def)

text \<open>
  C10. The row-count pass returns the description it was given with only the
  \<open>rowCount\<close> field replaced: \<open>sql\<close>, \<open>columns\<close> and \<open>params\<close> are the
  input's.
\<close>

theorem inferRowCount_frame:
  "sql (inferRowCount statement astNode) = sql statement
   \<and> columns (inferRowCount statement astNode) = columns statement
   \<and> params (inferRowCount statement astNode) = params statement
   \<and> inferRowCount statement astNode = statement\<lparr>rowCount := rowCount (inferRowCount statement astNode)\<rparr>"
  by (simp add: inferRowCount_def)

end
